theory Spec2Isabelle
  imports Complex_Main "HOL-Library.Word"
begin

section \<open>JavaScript values used by the statement pipeline\<close>

text \<open>
  A JavaScript string is a sequence of UTF-16 code units; a code unit is modelled by its
  numeric value, so that the currency signs of \<open>parseAmount\<close> (pound sign 163, euro sign
  8364) are ordinary elements. \<open>str\<close> turns an ASCII literal into such a sequence.
\<close>

type_synonym jsstring = "nat list"

definition str :: "string \<Rightarrow> jsstring" where
  "str s = map of_char s"

text \<open>
  \<open>String.prototype.toLowerCase\<close>, restricted to the ASCII capitals: a code unit outside
  \<open>A\<close>..\<open>Z\<close> is left as it is (the host also maps the capitals beyond ASCII).
\<close>

definition toLowerCaseUnit :: "nat \<Rightarrow> nat" where
  "toLowerCaseUnit c = (if 65 \<le> c \<and> c \<le> 90 then c + 32 else c)"

definition toLowerCase :: "jsstring \<Rightarrow> jsstring" where
  "toLowerCase s = map toLowerCaseUnit s"

text \<open>The code units matched by \<open>\s\<close> and removed by \<open>trim\<close>: white space and line terminators.\<close>

definition isWhiteSpace :: "nat \<Rightarrow> bool" where
  "isWhiteSpace c =
     (c = 9 \<or> c = 10 \<or> c = 11 \<or> c = 12 \<or> c = 13 \<or> c = 32 \<or> c = 160 \<or> c = 5760
      \<or> (8192 \<le> c \<and> c \<le> 8202) \<or> c = 8232 \<or> c = 8233 \<or> c = 8239 \<or> c = 8287
      \<or> c = 12288 \<or> c = 65279)"

definition trim :: "jsstring \<Rightarrow> jsstring" where
  "trim s = rev (dropWhile isWhiteSpace (rev (dropWhile isWhiteSpace s)))"

fun startsWith :: "jsstring \<Rightarrow> jsstring \<Rightarrow> bool" where
  "startsWith s [] = True"
| "startsWith [] (p # ps) = False"
| "startsWith (c # cs) (p # ps) = (c = p \<and> startsWith cs ps)"

definition endsWith :: "jsstring \<Rightarrow> jsstring \<Rightarrow> bool" where
  "endsWith s p = startsWith (rev s) (rev p)"

text \<open>\<open>s.includes(v)\<close>: \<open>v\<close> occurs in \<open>s\<close> as a contiguous run.\<close>

fun str_includes :: "jsstring \<Rightarrow> jsstring \<Rightarrow> bool" where
  "str_includes [] v = (v = [])"
| "str_includes (c # cs) v = (startsWith (c # cs) v \<or> str_includes cs v)"

text \<open>The truth value of a string that may be \<open>undefined\<close>: absent and empty are both false.\<close>

definition truthyStr :: "jsstring option \<Rightarrow> bool" where
  "truthyStr v = (case v of None \<Rightarrow> False | Some s \<Rightarrow> s \<noteq> [])"

text \<open>Decimal rendering of a non-negative integer, as a template literal prints an index.\<close>

fun showNat :: "nat \<Rightarrow> jsstring" where
  "showNat n = (if n < 10 then [48 + n] else showNat (n div 10) @ [48 + n mod 10])"

declare showNat.simps [simp del]

text \<open>
  A JavaScript number. A finite value is modelled by the exact real it denotes; the
  rounding of a decimal text to binary64 is not modelled.
\<close>

datatype jsnum = NaN | NegInfinity | Num real | PosInfinity

definition isNaN :: "jsnum \<Rightarrow> bool" where
  "isNaN n = (n = NaN)"

fun Math_min :: "jsnum \<Rightarrow> jsnum \<Rightarrow> jsnum" where
  "Math_min NaN b = NaN"
| "Math_min a NaN = NaN"
| "Math_min NegInfinity b = NegInfinity"
| "Math_min a NegInfinity = NegInfinity"
| "Math_min PosInfinity b = b"
| "Math_min a PosInfinity = a"
| "Math_min (Num x) (Num y) = Num (min x y)"

fun Math_max :: "jsnum \<Rightarrow> jsnum \<Rightarrow> jsnum" where
  "Math_max NaN b = NaN"
| "Math_max a NaN = NaN"
| "Math_max PosInfinity b = PosInfinity"
| "Math_max a PosInfinity = PosInfinity"
| "Math_max NegInfinity b = b"
| "Math_max a NegInfinity = a"
| "Math_max (Num x) (Num y) = Num (max x y)"

text \<open>The comparison \<open>n > 0\<close>.\<close>

fun greaterThanZero :: "jsnum \<Rightarrow> bool" where
  "greaterThanZero (Num x) = (0 < x)"
| "greaterThanZero PosInfinity = True"
| "greaterThanZero n = False"

subsection \<open>The global \<open>parseFloat\<close>\<close>

text \<open>
  \<open>parseFloat\<close> as ECMAScript defines it: leading white space is dropped, then the longest
  prefix that is a decimal literal (optional sign, \<open>Infinity\<close> or digits with an optional
  fraction and an optional exponent) gives the value; whatever follows that prefix is
  ignored, and a text with no such prefix gives \<open>NaN\<close>.
\<close>

definition isDigit :: "nat \<Rightarrow> bool" where
  "isDigit c = (48 \<le> c \<and> c \<le> 57)"

definition digitsValue :: "jsstring \<Rightarrow> nat" where
  "digitsValue ds = foldl (\<lambda>acc c. 10 * acc + (c - 48)) 0 ds"

definition exponentDigits :: "int \<Rightarrow> jsstring \<Rightarrow> int" where
  "exponentDigits sg t =
     (let ds = takeWhile isDigit t in if ds = [] then 0 else sg * int (digitsValue ds))"

fun exponentPart :: "jsstring \<Rightarrow> int" where
  "exponentPart [] = 0"
| "exponentPart [c] = 0"
| "exponentPart (c # d # r) =
     (if c = 101 \<or> c = 69 then
        (if d = 43 then exponentDigits 1 r
         else if d = 45 then exponentDigits (- 1) r
         else exponentDigits 1 (d # r))
      else 0)"

definition scale10 :: "int \<Rightarrow> real" where
  "scale10 e = (if 0 \<le> e then 10 ^ nat e else 1 / 10 ^ nat (- e))"

definition unsignedDecimal :: "bool \<Rightarrow> jsstring \<Rightarrow> jsnum" where
  "unsignedDecimal neg body =
     (if startsWith body (str ''Infinity'') then (if neg then NegInfinity else PosInfinity)
      else
        (let ip = takeWhile isDigit body;
             r1 = dropWhile isDigit body;
             hasDot = startsWith r1 [46];
             fp = (if hasDot then takeWhile isDigit (tl r1) else []);
             r2 = (if hasDot then dropWhile isDigit (tl r1) else r1)
         in if ip = [] \<and> fp = [] then NaN
            else Num ((if neg then - 1 else 1)
                      * (real (digitsValue (ip @ fp)) / 10 ^ length fp)
                      * scale10 (exponentPart r2))))"

fun signedDecimal :: "jsstring \<Rightarrow> jsnum" where
  "signedDecimal [] = NaN"
| "signedDecimal (c # cs) =
     (if c = 45 then unsignedDecimal True cs
      else if c = 43 then unsignedDecimal False cs
      else unsignedDecimal False (c # cs))"

definition parseFloat :: "jsstring \<Rightarrow> jsnum" where
  "parseFloat input = signedDecimal (dropWhile isWhiteSpace input)"

section \<open>The CSV parser\<close>

text \<open>
  \<open>Papa.parse\<close> is a library outside the repository, so its outcome is the input of the
  model: either the call throws (the thrown value's message, if it is an \<open>Error\<close>), or it
  returns the tokenizer's errors, the header fields and one object per data row, keyed
  by header.
\<close>

type_synonym csvrow = "jsstring \<rightharpoonup> jsstring"

record PapaError =
  err_row :: "nat option"
  err_message :: jsstring

record PapaResult =
  papa_data :: "csvrow list"
  papa_errors :: "PapaError list"
  meta_fields :: "jsstring list option"

type_synonym PapaOutcome = "jsstring option + PapaResult"

text \<open>A \<open>Date\<close> is its time value, the milliseconds since the epoch.\<close>

record ParsedTransaction =
  date :: int
  merchant :: jsstring
  description :: jsstring
  amount :: jsnum
  rawData :: csvrow

record CSVParseResult =
  success :: bool
  transactions :: "ParsedTransaction list"
  errors :: "jsstring list"

datatype field = DateField | MerchantField | DescriptionField | AmountField

definition variations :: "field \<Rightarrow> jsstring list" where
  "variations f =
     (case f of
        DateField \<Rightarrow> [str ''date'', str ''transaction date'', str ''posted date'',
                       str ''trans date'', str ''posting date'']
      | MerchantField \<Rightarrow> [str ''merchant'', str ''description'', str ''payee'', str ''name'',
                           str ''vendor'']
      | DescriptionField \<Rightarrow> [str ''description'', str ''memo'', str ''details'', str ''notes'']
      | AmountField \<Rightarrow> [str ''amount'', str ''value'', str ''transaction amount'',
                         str ''debit'', str ''credit''])"

definition COLUMN_MAPPINGS :: "(field \<times> jsstring list) list" where
  "COLUMN_MAPPINGS =
     [(DateField, variations DateField), (MerchantField, variations MerchantField),
      (DescriptionField, variations DescriptionField), (AmountField, variations AmountField)]"

type_synonym columnMap = "field \<rightharpoonup> jsstring"

text \<open>The callback of \<open>headers.find\<close>: some variant occurs in the lower-cased header.\<close>

definition headerMatches :: "jsstring list \<Rightarrow> jsstring \<Rightarrow> bool" where
  "headerMatches vs header = list_ex (\<lambda>v. str_includes (toLowerCase header) v) vs"

definition detectColumnMappings :: "jsstring list \<Rightarrow> columnMap" where
  "detectColumnMappings headers =
     foldl (\<lambda>m (f, vs).
              (case List.find (headerMatches vs) headers of
                 None \<Rightarrow> m
               | Some h \<Rightarrow> if h \<noteq> [] then m(f \<mapsto> h) else m))
       Map.empty COLUMN_MAPPINGS"

text \<open>
  The selection rule in the words of the specification, for comparison: the first
  variant, in variant order, that occurs in some header, then the first header holding it.
\<close>

definition variantPriorityChoice :: "jsstring list \<Rightarrow> jsstring list \<Rightarrow> jsstring option" where
  "variantPriorityChoice vs headers =
     (case List.find (\<lambda>v. list_ex (\<lambda>h. str_includes (toLowerCase h) v) headers) vs of
        None \<Rightarrow> None
      | Some v \<Rightarrow> List.find (\<lambda>h. str_includes (toLowerCase h) v) headers)"

subsection \<open>Dates\<close>

text \<open>
  \<open>new Date(text)\<close> belongs to the host: the parameter \<open>D\<close> of \<open>parseDate\<close> gives the time
  value the host assigns to a text, \<open>None\<close> for an invalid date. The two regular
  expressions of \<open>usFormats\<close> are three runs of digits of bounded length, separated by a
  slash or a hyphen and anchored at both ends.
\<close>

definition digitRun :: "nat \<Rightarrow> nat \<Rightarrow> jsstring \<Rightarrow> (jsstring \<times> jsstring) option" where
  "digitRun lo hi s =
     (let g = takeWhile isDigit s
      in if lo \<le> length g \<and> length g \<le> hi then Some (g, dropWhile isDigit s) else None)"

fun separator :: "jsstring \<Rightarrow> jsstring option" where
  "separator [] = None"
| "separator (c # r) = (if c = 47 \<or> c = 45 then Some r else None)"

definition matchDigitGroups ::
  "nat \<times> nat \<Rightarrow> nat \<times> nat \<Rightarrow> nat \<times> nat \<Rightarrow> jsstring \<Rightarrow> (jsstring \<times> jsstring \<times> jsstring) option" where
  "matchDigitGroups b1 b2 b3 s =
     (case digitRun (fst b1) (snd b1) s of
        None \<Rightarrow> None
      | Some (p1, r1) \<Rightarrow>
     (case separator r1 of
        None \<Rightarrow> None
      | Some r2 \<Rightarrow>
     (case digitRun (fst b2) (snd b2) r2 of
        None \<Rightarrow> None
      | Some (p2, r3) \<Rightarrow>
     (case separator r3 of
        None \<Rightarrow> None
      | Some r4 \<Rightarrow>
     (case digitRun (fst b3) (snd b3) r4 of
        None \<Rightarrow> None
      | Some (p3, r5) \<Rightarrow> if r5 = [] then Some (p1, p2, p3) else None)))))"

definition usFormats :: "(jsstring \<Rightarrow> (jsstring \<times> jsstring \<times> jsstring) option) list" where
  "usFormats = [matchDigitGroups (1, 2) (1, 2) (4, 4), matchDigitGroups (4, 4) (1, 2) (1, 2)]"

fun tryFormats ::
  "(jsstring \<Rightarrow> int option) \<Rightarrow> jsstring
     \<Rightarrow> (jsstring \<Rightarrow> (jsstring \<times> jsstring \<times> jsstring) option) list \<Rightarrow> int option" where
  "tryFormats D dateStr [] = None"
| "tryFormats D dateStr (format # rest) =
     (case format dateStr of
        None \<Rightarrow> tryFormats D dateStr rest
      | Some (p1, p2, p3) \<Rightarrow>
          (case D (p1 @ str ''/'' @ p2 @ str ''/'' @ p3) of
             Some date1 \<Rightarrow> Some date1
           | None \<Rightarrow>
               (case D (p3 @ str ''/'' @ p1 @ str ''/'' @ p2) of
                  Some date2 \<Rightarrow> Some date2
                | None \<Rightarrow> tryFormats D dateStr rest)))"

definition parseDate :: "(jsstring \<Rightarrow> int option) \<Rightarrow> jsstring \<Rightarrow> int option" where
  "parseDate D dateStr =
     (case D dateStr of Some isoDate \<Rightarrow> Some isoDate | None \<Rightarrow> tryFormats D dateStr usFormats)"

text \<open>
  A host for concrete runs, on the three texts of the date test only. The date-only ISO
  form is read as UTC midnight (ECMAScript); the slash and hyphen forms with the year
  last are read as midnight local time (the legacy parser of the Node runtime).
  \<open>tz\<close> is the zone's offset from UTC in minutes, positive to the east;
  1705276800000 is 2024-01-15T00:00:00Z, day 19737 of the epoch.
\<close>

definition sampleHostDate :: "int \<Rightarrow> jsstring \<Rightarrow> int option" where
  "sampleHostDate tz s =
     (if s = str ''2024-01-15'' then Some 1705276800000
      else if s = str ''01/15/2024'' \<or> s = str ''01-15-2024''
        then Some (1705276800000 - tz * 60000)
      else None)"


subsection \<open>Amounts\<close>

definition isStripped :: "nat \<Rightarrow> bool" where
  "isStripped c = (c = 36 \<or> c = 163 \<or> c = 8364 \<or> c = 44 \<or> isWhiteSpace c)"

definition parseAmount :: "jsstring \<Rightarrow> jsnum" where
  "parseAmount amountStr =
     (let cleaned = filter (\<lambda>c. \<not> isStripped c) amountStr;
          cleaned2 = (if startsWith cleaned (str ''('') \<and> endsWith cleaned (str '')'')
                      then str ''-'' @ butlast (tl cleaned) else cleaned)
      in parseFloat cleaned2)"

subsection \<open>Rows and files\<close>

text \<open>
  \<open>row[columnMap.field]\<close>: an unmapped field is the key \<open>undefined\<close>, which the lookup turns
  into the text \<open>undefined\<close>.
\<close>

definition cell :: "csvrow \<Rightarrow> columnMap \<Rightarrow> field \<Rightarrow> jsstring option" where
  "cell r cm f = r (case cm f of None \<Rightarrow> str ''undefined'' | Some h \<Rightarrow> h)"

definition orElse :: "jsstring option \<Rightarrow> jsstring \<Rightarrow> jsstring" where
  "orElse v d = (case v of None \<Rightarrow> d | Some s \<Rightarrow> if s = [] then d else s)"

text \<open>\<open>Inl\<close> is the message of the thrown error, \<open>Inr None\<close> the skipped row (\<open>null\<close>).\<close>

definition parseRow ::
  "(jsstring \<Rightarrow> int option) \<Rightarrow> csvrow \<Rightarrow> columnMap \<Rightarrow> jsstring + ParsedTransaction option" where
  "parseRow D r cm =
     (let merchant1 = orElse (cell r cm MerchantField) (str ''Unknown'');
          description1 = orElse (cell r cm DescriptionField) merchant1
      in case cell r cm DateField of
           None \<Rightarrow> Inr None
         | Some dateStr \<Rightarrow>
        (case cell r cm AmountField of
           None \<Rightarrow> Inr None
         | Some amountStr \<Rightarrow>
             if dateStr = [] \<or> amountStr = [] then Inr None
             else
               (case parseDate D dateStr of
                  None \<Rightarrow> Inl (str ''Invalid date format: '' @ dateStr)
                | Some date1 \<Rightarrow>
                    (let amount1 = parseAmount amountStr
                     in if isNaN amount1 then Inl (str ''Invalid amount: '' @ amountStr)
                        else Inr (Some \<lparr>date = date1, merchant = trim merchant1,
                                         description = trim description1, amount = amount1,
                                         rawData = r\<rparr>)))))"

definition rowErrorLine :: "nat \<Rightarrow> jsstring \<Rightarrow> jsstring" where
  "rowErrorLine index msg = str ''Row '' @ showNat (index + 2) @ str '': '' @ msg"

text \<open>The \<open>forEach\<close> over the data rows, pushing onto the two lists.\<close>

fun forEachRow ::
  "(jsstring \<Rightarrow> int option) \<Rightarrow> columnMap \<Rightarrow> csvrow list \<Rightarrow> nat
     \<Rightarrow> ParsedTransaction list \<times> jsstring list \<Rightarrow> ParsedTransaction list \<times> jsstring list" where
  "forEachRow D cm [] index acc = acc"
| "forEachRow D cm (r # rows) index (txs, errs) =
     (case parseRow D r cm of
        Inl msg \<Rightarrow> forEachRow D cm rows (index + 1) (txs, errs @ [rowErrorLine index msg])
      | Inr None \<Rightarrow> forEachRow D cm rows (index + 1) (txs, errs)
      | Inr (Some transaction) \<Rightarrow>
          forEachRow D cm rows (index + 1) (txs @ [transaction], errs))"

definition papaErrorLine :: "PapaError \<Rightarrow> jsstring" where
  "papaErrorLine e =
     str ''Row '' @ (case err_row e of None \<Rightarrow> str ''undefined'' | Some n \<Rightarrow> showNat n)
       @ str '': '' @ err_message e"

definition requiredColumnsError :: jsstring where
  "requiredColumnsError =
     str ''Could not detect required columns. Please ensure CSV has date and amount columns.''"

text \<open>\<open>result.meta.fields || []\<close>\<close>

definition fieldsOrEmpty :: "PapaResult \<Rightarrow> jsstring list" where
  "fieldsOrEmpty result = (case meta_fields result of Some fs \<Rightarrow> fs | None \<Rightarrow> [])"

definition parseCSV :: "(jsstring \<Rightarrow> int option) \<Rightarrow> PapaOutcome \<Rightarrow> CSVParseResult" where
  "parseCSV D papa =
     (case papa of
        Inl thrown \<Rightarrow>
          \<lparr>success = False, transactions = [],
           errors = [str ''Failed to parse CSV: ''
                       @ (case thrown of Some m \<Rightarrow> m | None \<Rightarrow> str ''Unknown error'')]\<rparr>
      | Inr result \<Rightarrow>
          (let errs = map papaErrorLine (papa_errors result);
               headers = fieldsOrEmpty result;
               cm = detectColumnMappings headers
           in if \<not> truthyStr (cm DateField) \<or> \<not> truthyStr (cm AmountField)
              then \<lparr>success = False, transactions = [],
                    errors = errs @ [requiredColumnsError]\<rparr>
              else
                (let out = forEachRow D cm (papa_data result) 0 ([], errs)
                 in \<lparr>success = (snd out = []), transactions = fst out, errors = snd out\<rparr>)))"


section \<open>The deduplication hash\<close>

text \<open>
  Three steps of \<open>generateHash\<close> belong to the host and are parameters: the text a
  template literal gives for the amount (\<open>numToString\<close>), \<open>TextEncoder.encode\<close> and the
  SHA-256 digest. \<open>hashData\<close> is the constant \<open>data\<close> of the function.
\<close>

definition hashData ::
  "('n \<Rightarrow> jsstring) \<Rightarrow> jsstring \<Rightarrow> 'n \<Rightarrow> jsstring \<Rightarrow> jsstring \<Rightarrow> jsstring" where
  "hashData numToString date1 amount1 merchant1 description1 =
     date1 @ str ''-'' @ numToString amount1 @ str ''-'' @ merchant1 @ str ''-'' @ description1"






text \<open>Decimal text of an integer amount, the instance of \<open>numToString\<close> used in concrete runs.\<close>

definition showInt :: "int \<Rightarrow> jsstring" where
  "showInt i = (if i < 0 then str ''-'' @ showNat (nat (- i)) else showNat (nat i))"

section \<open>The categorizer\<close>

datatype jsvalue =
    Undefined
  | JNull
  | JBool bool
  | JNumber jsnum
  | JString jsstring
  | JArray "jsvalue list"
  | JObject "(jsstring \<times> jsvalue) list"

record CategorizationResult =
  category :: jsvalue
  subcategory :: jsvalue
  confidence :: jsnum
  explanation :: jsvalue

text \<open>Truthiness, as \<open>||\<close> tests it.\<close>

fun truthy :: "jsvalue \<Rightarrow> bool" where
  "truthy Undefined = False"
| "truthy JNull = False"
| "truthy (JBool b) = b"
| "truthy (JNumber n) = (n \<noteq> NaN \<and> n \<noteq> Num 0)"
| "truthy (JString s) = (s \<noteq> [])"
| "truthy (JArray xs) = True"
| "truthy (JObject fs) = True"

definition orValue :: "jsvalue \<Rightarrow> jsvalue \<Rightarrow> jsvalue" where
  "orValue a b = (if truthy a then a else b)"

text \<open>Reading a property of a parsed value: only an object holds the four keys.\<close>

fun getProp :: "jsvalue \<Rightarrow> jsstring \<Rightarrow> jsvalue" where
  "getProp (JObject fs) k = (case map_of fs k of None \<Rightarrow> Undefined | Some v \<Rightarrow> v)"
| "getProp v k = Undefined"

text \<open>
  The conversion \<open>Math.min\<close> applies to its argument. For a string, an array or an object
  it goes through the host's text-to-number conversion, the parameter \<open>hostNumber\<close>.
\<close>

fun ToNumber :: "(jsvalue \<Rightarrow> jsnum) \<Rightarrow> jsvalue \<Rightarrow> jsnum" where
  "ToNumber hostNumber (JNumber n) = n"
| "ToNumber hostNumber (JBool b) = Num (if b then 1 else 0)"
| "ToNumber hostNumber JNull = Num 0"
| "ToNumber hostNumber Undefined = NaN"
| "ToNumber hostNumber v = hostNumber v"

text \<open>
  The match of \<open>/\{[\s\S]*\}/\<close>: from the first opening brace to the last closing brace
  after it, if there is one.
\<close>

definition matchJsonObject :: "jsstring \<Rightarrow> jsstring option" where
  "matchJsonObject text1 =
     (let fromBrace = dropWhile (\<lambda>c. c \<noteq> 123) text1;
          body = rev (dropWhile (\<lambda>c. c \<noteq> 125) (rev (tl fromBrace)))
      in if fromBrace = [] \<or> body = [] then None else Some (123 # body))"

definition parseFailure :: CategorizationResult where
  "parseFailure =
     \<lparr>category = JString (str ''Uncategorized''), subcategory = Undefined,
      confidence = Num 0, explanation = JString (str ''Failed to parse AI response'')\<rparr>"

text \<open>
  \<open>JSON.parse\<close> is the host's: \<open>JSON_parse\<close> gives the parsed value, \<open>None\<close> where it throws.
  Every exception inside the \<open>try\<close> ends in \<open>parseFailure\<close>.
\<close>

definition parseCategorizationResponse ::
  "(jsstring \<Rightarrow> jsvalue option) \<Rightarrow> (jsvalue \<Rightarrow> jsnum) \<Rightarrow> jsstring \<Rightarrow> CategorizationResult" where
  "parseCategorizationResponse JSON_parse hostNumber text1 =
     (case matchJsonObject text1 of
        None \<Rightarrow> parseFailure
      | Some jsonMatch \<Rightarrow>
          (case JSON_parse jsonMatch of
             None \<Rightarrow> parseFailure
           | Some result \<Rightarrow>
               if result = JNull \<or> result = Undefined then parseFailure
               else
                 \<lparr>category = getProp result (str ''category''),
                  subcategory = orValue (getProp result (str ''subcategory'')) Undefined,
                  confidence =
                    Math_max (Num 0)
                      (Math_min (Num 1)
                         (ToNumber hostNumber
                            (orValue (getProp result (str ''confidence'')) (JNumber (Num 0.5))))),
                  explanation =
                    orValue (getProp result (str ''explanation''))
                      (JString (str ''AI categorization''))\<rparr>))"

definition textIncludesAny :: "jsstring \<Rightarrow> jsstring list \<Rightarrow> bool" where
  "textIncludesAny text1 keywords = list_ex (\<lambda>k. str_includes text1 k) keywords"

definition ruleBasedCategorization :: "jsstring \<Rightarrow> jsstring \<Rightarrow> jsnum \<Rightarrow> CategorizationResult" where
  "ruleBasedCategorization merchant1 description1 amount1 =
     (let text1 = toLowerCase (merchant1 @ str '' '' @ description1)
      in if textIncludesAny text1
              [str ''grocery'', str ''market'', str ''whole foods'', str ''trader joe'']
         then \<lparr>category = JString (str ''Groceries''), subcategory = Undefined,
               confidence = Num 0.7, explanation = JString (str ''Keyword match: grocery store'')\<rparr>
         else if textIncludesAny text1
              [str ''restaurant'', str ''cafe'', str ''coffee'', str ''food'']
         then \<lparr>category = JString (str ''Dining''), subcategory = Undefined,
               confidence = Num 0.6,
               explanation = JString (str ''Keyword match: dining establishment'')\<rparr>
         else if textIncludesAny text1 [str ''gas'', str ''fuel'', str ''shell'', str ''chevron'']
         then \<lparr>category = JString (str ''Transport''), subcategory = JString (str ''Gas''),
               confidence = Num 0.7, explanation = JString (str ''Keyword match: gas station'')\<rparr>
         else if textIncludesAny text1
              [str ''netflix'', str ''spotify'', str ''subscription'', str ''hulu'']
         then \<lparr>category = JString (str ''Subscriptions''), subcategory = Undefined,
               confidence = Num 0.8,
               explanation = JString (str ''Keyword match: subscription service'')\<rparr>
         else if greaterThanZero amount1
         then \<lparr>category = JString (str ''Income''), subcategory = Undefined,
               confidence = Num 0.5,
               explanation = JString (str ''Positive amount suggests income'')\<rparr>
         else \<lparr>category = JString (str ''Uncategorized''), subcategory = Undefined,
               confidence = Num 0, explanation = JString (str ''No matching rules found'')\<rparr>)"

text \<open>
  The environment holds the two credentials. The remote exchange is an input: for the
  provider that is called, either the call throws (network failure, a body without the
  expected fields) or it delivers the reply's text.
\<close>

record environment =
  ANTHROPIC_API_KEY :: "jsstring option"
  OPENAI_API_KEY :: "jsstring option"

datatype provider = Claude | OpenAI

datatype remote = Throws | Text jsstring

definition categorizeTransaction ::
  "(jsstring \<Rightarrow> jsvalue option) \<Rightarrow> (jsvalue \<Rightarrow> jsnum) \<Rightarrow> environment \<Rightarrow> (provider \<Rightarrow> remote)
     \<Rightarrow> jsstring \<Rightarrow> jsstring \<Rightarrow> jsnum \<Rightarrow> CategorizationResult" where
  "categorizeTransaction JSON_parse hostNumber env fetch merchant1 description1 amount1 =
     (let apiKey = (if truthyStr (ANTHROPIC_API_KEY env) then ANTHROPIC_API_KEY env
                    else OPENAI_API_KEY env)
      in if \<not> truthyStr apiKey then ruleBasedCategorization merchant1 description1 amount1
         else
           (case fetch (if truthyStr (ANTHROPIC_API_KEY env) then Claude else OpenAI) of
              Throws \<Rightarrow> ruleBasedCategorization merchant1 description1 amount1
            | Text text1 \<Rightarrow> parseCategorizationResponse JSON_parse hostNumber text1))"

section \<open>Concrete inputs\<close>


text \<open>
  What the tokenizer returns for the one-line text \<open>This is not a valid CSV\<close> of the
  parser's test: one header, no data row, and its complaint that no delimiter was found,
  which carries no row number.
\<close>

definition undelimitedFile :: PapaResult where
  "undelimitedFile =
     \<lparr>papa_data = [],
      papa_errors =
        [\<lparr>err_row = None,
          err_message =
            str ''Unable to auto-detect delimiting character; defaulted to '' @ [39, 44, 39]\<rparr>],
      meta_fields = Some [str ''this is not a valid csv'']\<rparr>"

text \<open>The file \<open>Name,Value\<close> with one row: an amount column, no date column.\<close>

definition nameValueFile :: PapaResult where
  "nameValueFile =
     \<lparr>papa_data = [map_of [(str ''name'', str ''Test''), (str ''value'', str ''100'')]],
      papa_errors = [],
      meta_fields = Some [str ''name'', str ''value'']\<rparr>"



text \<open>
  Inputs for concrete runs of the categorizer: an environment without credentials, one
  with the first credential, and a reply whose JSON object has confidence 0, together
  with a host parser that knows this one text.
\<close>

definition noCredentials :: environment where
  "noCredentials = \<lparr>ANTHROPIC_API_KEY = None, OPENAI_API_KEY = None\<rparr>"

definition claudeCredential :: environment where
  "claudeCredential = \<lparr>ANTHROPIC_API_KEY = Some (str ''test-api-key''), OPENAI_API_KEY = None\<rparr>"

definition quoted :: "jsstring \<Rightarrow> jsstring" where
  "quoted s = 34 # s @ [34]"

definition zeroConfidenceReply :: jsstring where
  "zeroConfidenceReply =
     str ''{'' @ quoted (str ''category'') @ str '':'' @ quoted (str ''Groceries'') @ str '',''
       @ quoted (str ''confidence'') @ str '':0,''
       @ quoted (str ''explanation'') @ str '':'' @ quoted (str ''Test'') @ str ''}''"

definition sampleJsonParse :: "jsstring \<Rightarrow> jsvalue option" where
  "sampleJsonParse s =
     (if s = zeroConfidenceReply
      then Some (JObject [(str ''category'', JString (str ''Groceries'')),
                          (str ''confidence'', JNumber (Num 0)),
                          (str ''explanation'', JString (str ''Test''))])
      else None)"

section \<open>Properties of the string primitives\<close>

lemma startsWith_iff: "startsWith s p \<longleftrightarrow> (\<exists>q. s = p @ q)"
  by (induction s p rule: startsWith.induct) auto

lemma str_includes_iff: "str_includes s v \<longleftrightarrow> (\<exists>p q. s = p @ v @ q)"
proof (induction s)
  case Nil
  then show ?case by simp
next
  case (Cons c cs)
  show ?case
  proof
    assume "str_includes (c # cs) v"
    then consider "startsWith (c # cs) v" | "str_includes cs v" by auto
    then show "\<exists>p q. c # cs = p @ v @ q"
    proof cases
      case 1
      then obtain q where "c # cs = v @ q" by (auto simp: startsWith_iff)
      then have "c # cs = [] @ v @ q" by simp
      then show ?thesis by blast
    next
      case 2
      then obtain p q where "cs = p @ v @ q" using Cons.IH by blast
      then have "c # cs = (c # p) @ v @ q" by simp
      then show ?thesis by blast
    qed
  next
    assume "\<exists>p q. c # cs = p @ v @ q"
    then obtain p q where pq: "c # cs = p @ v @ q" by blast
    show "str_includes (c # cs) v"
    proof (cases p)
      case Nil
      with pq have "startsWith (c # cs) v" by (auto simp: startsWith_iff)
      then show ?thesis by simp
    next
      case (Cons a p')
      with pq have "cs = p' @ v @ q" by simp
      then have "str_includes cs v" using Cons.IH by blast
      then show ?thesis by simp
    qed
  qed
qed

section \<open>Properties of the column mapper\<close>

lemma headerMatches_iff:
  "headerMatches vs h \<longleftrightarrow> (\<exists>v \<in> set vs. str_includes (toLowerCase h) v)"
  by (simp add: headerMatches_def list_ex_iff)

lemma variations_nonempty: "v \<in> set (variations f) \<Longrightarrow> v \<noteq> []"
  by (cases f) (auto simp: variations_def str_def)

lemma headerMatches_nonempty: "headerMatches (variations f) h \<Longrightarrow> h \<noteq> []"
proof
  assume m: "headerMatches (variations f) h" and e: "h = []"
  from m obtain v where v: "v \<in> set (variations f)" "str_includes (toLowerCase h) v"
    by (auto simp: headerMatches_iff)
  from v(2) e have "v = []" by (simp add: toLowerCase_def)
  with v(1) show False using variations_nonempty by blast
qed

lemma find_matching_nonempty:
  "List.find (headerMatches (variations f)) hs = Some h \<Longrightarrow> h \<noteq> []"
  by (auto simp: find_Some_iff dest: headerMatches_nonempty)

text \<open>
  The map built by the loop over \<open>COLUMN_MAPPINGS\<close> holds, for each field, what
  \<open>headers.find\<close> returns for that field's variants; the test \<open>if (match)\<close> never drops a
  found header, since a matching header is not empty.
\<close>

lemma detectColumnMappings_find:
  "detectColumnMappings hs f = List.find (headerMatches (variations f)) hs"
  by (cases f)
     (auto simp: detectColumnMappings_def COLUMN_MAPPINGS_def split: option.splits
           dest: find_matching_nonempty)

text \<open>
  C2, as the specification words it, is false: the mapper does not rank headers by the
  position of the variant they hold. With the headers \<open>date, description, merchant,
  amount\<close> the merchant field is mapped to \<open>description\<close>, the first header holding any
  merchant variant, while the variant-priority rule picks \<open>merchant\<close>.
\<close>

theorem detectColumnMappings_counterexample:
  "detectColumnMappings [str ''date'', str ''description'', str ''merchant'', str ''amount'']
         MerchantField = Some (str ''description'')
   \<and> variantPriorityChoice (variations MerchantField)
         [str ''date'', str ''description'', str ''merchant'', str ''amount'']
       = Some (str ''merchant'')
   \<and> str ''description'' \<noteq> str ''merchant''"
  by (simp add: detectColumnMappings_def COLUMN_MAPPINGS_def variations_def headerMatches_def
        variantPriorityChoice_def toLowerCase_def toLowerCaseUnit_def str_def)

text \<open>
  C2 (amended): for every list of headers and every canonical field, the mapper selects
  the first header, in header order, whose lower-cased text contains at least one of the
  field's variants, and leaves the field unmapped exactly when no header contains one.
  Whether a header counts depends on the set of variants only, not on their order.
\<close>

theorem detectColumnMappings_first_matching_header:
  "(detectColumnMappings headers f = Some h \<longleftrightarrow>
      (\<exists>i<length headers. headers ! i = h \<and> headerMatches (variations f) h
          \<and> (\<forall>j<i. \<not> headerMatches (variations f) (headers ! j))))
   \<and> (detectColumnMappings headers f = None \<longleftrightarrow>
        (\<forall>h' \<in> set headers. \<not> headerMatches (variations f) h'))
   \<and> (headerMatches (variations f) h \<longleftrightarrow>
        (\<exists>v \<in> set (variations f). \<exists>p q. toLowerCase h = p @ v @ q))"
proof (intro conjI)
  show "detectColumnMappings headers f = Some h \<longleftrightarrow>
      (\<exists>i<length headers. headers ! i = h \<and> headerMatches (variations f) h
          \<and> (\<forall>j<i. \<not> headerMatches (variations f) (headers ! j)))"
    unfolding detectColumnMappings_find find_Some_iff by auto
  show "detectColumnMappings headers f = None \<longleftrightarrow>
        (\<forall>h' \<in> set headers. \<not> headerMatches (variations f) h')"
    unfolding detectColumnMappings_find find_None_iff by auto
  show "headerMatches (variations f) h \<longleftrightarrow>
        (\<exists>v \<in> set (variations f). \<exists>p q. toLowerCase h = p @ v @ q)"
    by (simp add: headerMatches_iff str_includes_iff)
qed

text \<open>The amended C2 at the headers of the counterexample: index 1 is the first match.\<close>

theorem detectColumnMappings_first_matching_header_witness:
  "\<exists>i<length [str ''date'', str ''description'', str ''merchant'', str ''amount''].
       [str ''date'', str ''description'', str ''merchant'', str ''amount''] ! i
             = str ''description''
          \<and> headerMatches (variations MerchantField) (str ''description'')
          \<and> (\<forall>j<i. \<not> headerMatches (variations MerchantField)
                ([str ''date'', str ''description'', str ''merchant'', str ''amount''] ! j))"
proof -
  have "detectColumnMappings [str ''date'', str ''description'', str ''merchant'', str ''amount'']
         MerchantField = Some (str ''description'')"
    by (simp add: detectColumnMappings_def COLUMN_MAPPINGS_def variations_def headerMatches_def
        toLowerCase_def toLowerCaseUnit_def str_def)
  then show ?thesis
    using detectColumnMappings_first_matching_header
          [of "[str ''date'', str ''description'', str ''merchant'', str ''amount'']"
              MerchantField "str ''description''", THEN conjunct1]
    by blast
qed

section \<open>Properties of the statement parser\<close>

lemma detectColumnMappings_truthy:
  "truthyStr (detectColumnMappings hs f) \<longleftrightarrow> detectColumnMappings hs f \<noteq> None"
  by (auto simp: truthyStr_def detectColumnMappings_find split: option.splits
           dest: find_matching_nonempty)





lemmas mapper_eval = detectColumnMappings_def COLUMN_MAPPINGS_def variations_def
  headerMatches_def toLowerCase_def toLowerCaseUnit_def str_def fieldsOrEmpty_def


text \<open>
  C6, as stated, is false where the tokenizer itself reported an error: its error lines
  are pushed before the columns are checked, so the result holds them as well. For the
  text \<open>This is not a valid CSV\<close> there are two errors, not exactly one.
\<close>

theorem parseCSV_missing_columns_counterexample:
  "detectColumnMappings (fieldsOrEmpty undelimitedFile) DateField = None
   \<and> errors (parseCSV (sampleHostDate 0) (Inr undelimitedFile))
       = [str ''Row undefined: Unable to auto-detect delimiting character; defaulted to ''
            @ [39, 44, 39],
          requiredColumnsError]
   \<and> length (errors (parseCSV (sampleHostDate 0) (Inr undelimitedFile))) = 2"
proof -
  have d: "detectColumnMappings (fieldsOrEmpty undelimitedFile) DateField = None"
    by (simp add: undelimitedFile_def mapper_eval)
  then have "parseCSV (sampleHostDate 0) (Inr undelimitedFile)
      = \<lparr>success = False, transactions = [],
         errors = map papaErrorLine (papa_errors undelimitedFile) @ [requiredColumnsError]\<rparr>"
    by (simp add: parseCSV_def Let_def truthyStr_def)
  moreover have "map papaErrorLine (papa_errors undelimitedFile)
      = [str ''Row undefined: Unable to auto-detect delimiting character; defaulted to ''
            @ [39, 44, 39]]"
    by (simp add: undelimitedFile_def papaErrorLine_def str_def)
  ultimately show ?thesis using d by simp
qed

text \<open>
  C6 (amended): for every tokenized file whose headers yield no date mapping or no
  amount mapping, \<open>parseCSV\<close> returns \<open>success = false\<close>, an empty transaction list, and as
  errors the tokenizer's error lines followed by exactly one explanatory error (so
  exactly one error when the tokenizer reported none); the data rows play no part in
  the result.
\<close>

theorem parseCSV_missing_required_columns:
  assumes cm: "cm = detectColumnMappings (fieldsOrEmpty result)"
    and missing: "cm DateField = None \<or> cm AmountField = None"
  shows "parseCSV D (Inr result)
           = \<lparr>success = False, transactions = [],
              errors = map papaErrorLine (papa_errors result) @ [requiredColumnsError]\<rparr>
       \<and> parseCSV D (Inr (result\<lparr>papa_data := rows\<rparr>)) = parseCSV D (Inr result)
       \<and> length (errors (parseCSV D (Inr result))) = length (papa_errors result) + 1"
proof -
  have t: "\<not> truthyStr (cm DateField) \<or> \<not> truthyStr (cm AmountField)"
    using missing cm by (auto simp: detectColumnMappings_truthy)
  have 1: "parseCSV D (Inr result)
           = \<lparr>success = False, transactions = [],
              errors = map papaErrorLine (papa_errors result) @ [requiredColumnsError]\<rparr>"
    using t cm by (auto simp: parseCSV_def Let_def)
  have "fieldsOrEmpty (result\<lparr>papa_data := rows\<rparr>) = fieldsOrEmpty result"
    by (simp add: fieldsOrEmpty_def)
  then have 2: "parseCSV D (Inr (result\<lparr>papa_data := rows\<rparr>))
           = \<lparr>success = False, transactions = [],
              errors = map papaErrorLine (papa_errors result) @ [requiredColumnsError]\<rparr>"
    using t cm by (auto simp: parseCSV_def Let_def)
  show ?thesis using 1 2 by simp
qed

text \<open>
  The amended C6 at the file \<open>Name,Value\<close>: no date column, no tokenizer error, hence the
  single explanatory error, with or without the data row.
\<close>

theorem parseCSV_missing_required_columns_witness:
  "parseCSV (sampleHostDate 0) (Inr nameValueFile)
     = \<lparr>success = False, transactions = [], errors = [requiredColumnsError]\<rparr>
   \<and> parseCSV (sampleHostDate 0) (Inr (nameValueFile\<lparr>papa_data := []\<rparr>))
     = parseCSV (sampleHostDate 0) (Inr nameValueFile)"
proof -
  have d: "detectColumnMappings (fieldsOrEmpty nameValueFile) DateField = None"
    by (simp add: nameValueFile_def mapper_eval)
  have e: "papa_errors nameValueFile = []" by (simp add: nameValueFile_def)
  from parseCSV_missing_required_columns[OF refl disjI1, OF d, of "sampleHostDate 0" "[]"] e
  show ?thesis by simp
qed

section \<open>Properties of amount parsing\<close>











section \<open>Properties of date parsing\<close>






section \<open>Properties of the deduplication hash\<close>

text \<open>
  C4, as stated, is false: the fields are joined by a hyphen that the fields themselves
  may hold, so two different tuples can give one string. Here the merchant and the
  description split \<open>Wal-Mart-Supercenter\<close> at different hyphens.
\<close>

theorem hashData_counterexample:
  "hashData showInt (str ''2024-01-15'') 5 (str ''Wal-Mart'') (str ''Supercenter'')
     = hashData showInt (str ''2024-01-15'') 5 (str ''Wal'') (str ''Mart-Supercenter'')
   \<and> (str ''Wal-Mart'', str ''Supercenter'') \<noteq> (str ''Wal'', str ''Mart-Supercenter'')"
  by (simp add: hashData_def str_def)

text \<open>
  C4 (amended): the text fed to the digest is the date, the amount's text, the merchant
  and the description joined by single hyphens, without escaping. It separates any two
  tuples that differ in exactly one field (with different texts for the amount, when
  that is the field); tuples that differ in two or more fields can collide.
\<close>

theorem hashData_one_field_changed:
  "(d \<noteq> d' \<longrightarrow> hashData numToString d a m x \<noteq> hashData numToString d' a m x)
   \<and> (numToString a \<noteq> numToString a'
        \<longrightarrow> hashData numToString d a m x \<noteq> hashData numToString d a' m x)
   \<and> (m \<noteq> m' \<longrightarrow> hashData numToString d a m x \<noteq> hashData numToString d a m' x)
   \<and> (x \<noteq> x' \<longrightarrow> hashData numToString d a m x \<noteq> hashData numToString d a m x')"
  by (simp add: hashData_def)

text \<open>The amended C4 for a changed amount and for a changed merchant.\<close>

theorem hashData_one_field_changed_witness:
  "hashData showInt (str ''2024-01-15'') 5 (str ''Wal-Mart'') (str ''Supercenter'')
     \<noteq> hashData showInt (str ''2024-01-15'') 6 (str ''Wal-Mart'') (str ''Supercenter'')
   \<and> hashData showInt (str ''2024-01-15'') 5 (str ''Wal-Mart'') (str ''Supercenter'')
     \<noteq> hashData showInt (str ''2024-01-15'') 5 (str ''Wal'') (str ''Supercenter'')"
proof -
  have 1: "showInt 5 \<noteq> showInt 6" by (simp add: showInt_def showNat.simps)
  have 2: "str ''Wal-Mart'' \<noteq> str ''Wal''" by (simp add: str_def)
  from hashData_one_field_changed[where numToString = showInt and a = 5 and a' = 6
      and m = "str ''Wal-Mart''" and m' = "str ''Wal''"] 1 2
  show ?thesis by blast
qed






section \<open>Properties of the categorizer\<close>

lemma categorizeTransaction_without_key:
  assumes "\<not> truthyStr (ANTHROPIC_API_KEY env)" "\<not> truthyStr (OPENAI_API_KEY env)"
  shows "categorizeTransaction JSON_parse hostNumber env fetch m d a = ruleBasedCategorization m d a"
  using assms by (simp add: categorizeTransaction_def Let_def)

lemma ruleBasedCategorization_results:
  "ruleBasedCategorization m d a
     \<in> {\<lparr>category = JString (str ''Groceries''), subcategory = Undefined,
          confidence = Num 0.7, explanation = JString (str ''Keyword match: grocery store'')\<rparr>,
         \<lparr>category = JString (str ''Dining''), subcategory = Undefined,
          confidence = Num 0.6,
          explanation = JString (str ''Keyword match: dining establishment'')\<rparr>,
         \<lparr>category = JString (str ''Transport''), subcategory = JString (str ''Gas''),
          confidence = Num 0.7, explanation = JString (str ''Keyword match: gas station'')\<rparr>,
         \<lparr>category = JString (str ''Subscriptions''), subcategory = Undefined,
          confidence = Num 0.8,
          explanation = JString (str ''Keyword match: subscription service'')\<rparr>,
         \<lparr>category = JString (str ''Income''), subcategory = Undefined,
          confidence = Num 0.5,
          explanation = JString (str ''Positive amount suggests income'')\<rparr>,
         \<lparr>category = JString (str ''Uncategorized''), subcategory = Undefined,
          confidence = Num 0, explanation = JString (str ''No matching rules found'')\<rparr>}"
  by (simp add: ruleBasedCategorization_def Let_def)

lemma outside_taxonomy_part:
  "c \<in> {str ''Groceries'', str ''Dining'', str ''Transport'', str ''Subscriptions'',
         str ''Income'', str ''Uncategorized''}
   \<Longrightarrow> c \<notin> {str ''Housing'', str ''Shopping'', str ''Health'', str ''Entertainment'',
            str ''Travel'', str ''Transfers''}"
  by (auto simp: str_def)

lemmas rule_eval = ruleBasedCategorization_def textIncludesAny_def toLowerCase_def
  toLowerCaseUnit_def str_def

text \<open>The six transactions of the fallback tests, one per branch.\<close>

lemma ruleBasedCategorization_examples:
  "category (ruleBasedCategorization (str ''Whole Foods'') (str ''Grocery shopping'')
      (Num (- 87.5))) = JString (str ''Groceries'')"
  "category (ruleBasedCategorization (str ''Starbucks Coffee'') (str ''Coffee'')
      (Num (- 5.5))) = JString (str ''Dining'')"
  "category (ruleBasedCategorization (str ''Shell'') (str ''Fuel'')
      (Num (- 45))) = JString (str ''Transport'')"
  "category (ruleBasedCategorization (str ''Netflix'') (str ''Monthly subscription'')
      (Num (- 15.99))) = JString (str ''Subscriptions'')"
  "category (ruleBasedCategorization (str ''Employer Inc'') (str ''Payroll'')
      (Num 2500)) = JString (str ''Income'')"
  "category (ruleBasedCategorization (str ''Unknown Merchant'') (str ''Unknown'')
      (Num (- 50))) = JString (str ''Uncategorized'')"
  by (simp_all add: rule_eval)

text \<open>
  C10: when no remote credential is configured (each key absent or empty),
  \<open>categorizeTransaction\<close> returns the rule-based result, whatever the remote side would
  have answered; its category, subcategory and confidence are one of six combinations
  (Groceries 0.7, Dining 0.6, Transport with subcategory Gas 0.7, Subscriptions 0.8,
  Income 0.5, Uncategorized 0), and its category is never Housing, Shopping, Health,
  Entertainment, Travel or Transfers. Each of the six categories is returned for some
  transaction.
\<close>

theorem categorizeTransaction_no_credential:
  assumes "\<not> truthyStr (ANTHROPIC_API_KEY env)" and "\<not> truthyStr (OPENAI_API_KEY env)"
    and "r = categorizeTransaction JSON_parse hostNumber env fetch m d a"
  shows "r = ruleBasedCategorization m d a
       \<and> (category r, subcategory r, confidence r)
           \<in> {(JString (str ''Groceries''), Undefined, Num 0.7),
              (JString (str ''Dining''), Undefined, Num 0.6),
              (JString (str ''Transport''), JString (str ''Gas''), Num 0.7),
              (JString (str ''Subscriptions''), Undefined, Num 0.8),
              (JString (str ''Income''), Undefined, Num 0.5),
              (JString (str ''Uncategorized''), Undefined, Num 0)}
       \<and> category r \<notin> JString ` {str ''Housing'', str ''Shopping'', str ''Health'',
              str ''Entertainment'', str ''Travel'', str ''Transfers''}
       \<and> (\<forall>c \<in> {str ''Groceries'', str ''Dining'', str ''Transport'', str ''Subscriptions'',
                  str ''Income'', str ''Uncategorized''}.
             \<exists>m' d' a'. category (categorizeTransaction JSON_parse hostNumber env fetch m' d' a')
                           = JString c)"
proof -
  have r: "r = ruleBasedCategorization m d a"
    using assms by (simp add: categorizeTransaction_without_key)
  from ruleBasedCategorization_results[of m d a]
  have t: "(category r, subcategory r, confidence r)
           \<in> {(JString (str ''Groceries''), Undefined, Num 0.7),
              (JString (str ''Dining''), Undefined, Num 0.6),
              (JString (str ''Transport''), JString (str ''Gas''), Num 0.7),
              (JString (str ''Subscriptions''), Undefined, Num 0.8),
              (JString (str ''Income''), Undefined, Num 0.5),
              (JString (str ''Uncategorized''), Undefined, Num 0)}"
    unfolding r by (elim insertE emptyE) simp_all
  then obtain c where c: "category r = JString c"
    "c \<in> {str ''Groceries'', str ''Dining'', str ''Transport'', str ''Subscriptions'',
         str ''Income'', str ''Uncategorized''}"
    by (elim insertE emptyE) simp_all
  have "category r \<notin> JString ` {str ''Housing'', str ''Shopping'', str ''Health'',
              str ''Entertainment'', str ''Travel'', str ''Transfers''}"
    using outside_taxonomy_part[OF c(2)] c(1) by auto
  moreover have "\<forall>c \<in> {str ''Groceries'', str ''Dining'', str ''Transport'', str ''Subscriptions'',
                  str ''Income'', str ''Uncategorized''}.
             \<exists>m' d' a'. category (categorizeTransaction JSON_parse hostNumber env fetch m' d' a')
                           = JString c"
    unfolding categorizeTransaction_without_key[OF assms(1,2)]
    using ruleBasedCategorization_examples by blast
  ultimately show ?thesis using r t by blast
qed

text \<open>C10 at the grocery purchase of the categorizer's tests.\<close>

theorem categorizeTransaction_no_credential_witness:
  "category (categorizeTransaction sampleJsonParse (\<lambda>v. NaN) noCredentials (\<lambda>p. Throws)
       (str ''Whole Foods'') (str ''Grocery shopping'') (Num (- 87.5)))
     = JString (str ''Groceries'')
   \<and> confidence (categorizeTransaction sampleJsonParse (\<lambda>v. NaN) noCredentials (\<lambda>p. Throws)
       (str ''Whole Foods'') (str ''Grocery shopping'') (Num (- 87.5))) = Num 0.7"
proof -
  have k: "\<not> truthyStr (ANTHROPIC_API_KEY noCredentials)" "\<not> truthyStr (OPENAI_API_KEY noCredentials)"
    by (simp_all add: noCredentials_def truthyStr_def)
  have e: "ruleBasedCategorization (str ''Whole Foods'') (str ''Grocery shopping'') (Num (- 87.5))
      = \<lparr>category = JString (str ''Groceries''), subcategory = Undefined,
               confidence = Num 0.7, explanation = JString (str ''Keyword match: grocery store'')\<rparr>"
    by (simp add: ruleBasedCategorization_def textIncludesAny_def toLowerCase_def toLowerCaseUnit_def str_def)
  from categorizeTransaction_no_credential[OF k refl, of sampleJsonParse "\<lambda>v. NaN" "\<lambda>p. Throws"
      "str ''Whole Foods''" "str ''Grocery shopping''" "Num (- 87.5)"] e
  show ?thesis by simp
qed

lemma parseCategorizationResponse_no_object:
  "matchJsonObject t = None \<Longrightarrow> parseCategorizationResponse JSON_parse hostNumber t = parseFailure"
  by (simp add: parseCategorizationResponse_def)

lemma parseCategorizationResponse_bad_json:
  "matchJsonObject t = Some j \<Longrightarrow> JSON_parse j = None
     \<Longrightarrow> parseCategorizationResponse JSON_parse hostNumber t = parseFailure"
  by (simp add: parseCategorizationResponse_def)

lemma categorizeTransaction_with_key:
  assumes "truthyStr (ANTHROPIC_API_KEY env) \<or> truthyStr (OPENAI_API_KEY env)"
    and "fetch (if truthyStr (ANTHROPIC_API_KEY env) then Claude else OpenAI) = Text t"
  shows "categorizeTransaction JSON_parse hostNumber env fetch m d a
           = parseCategorizationResponse JSON_parse hostNumber t"
  using assms by (auto simp: categorizeTransaction_def Let_def)

text \<open>
  C3 does not hold of the code. With a credential set and a reply that holds no JSON
  object, \<open>parseCategorizationResponse\<close> catches its own exception and returns the fixed
  failure result, so the rule-based fallback, which gives Groceries for this merchant
  and is what a throwing call leads to, is never reached.
\<close>

theorem categorizeTransaction_unparseable_reply:
  "categorizeTransaction JSON_parse hostNumber claudeCredential
       (\<lambda>p. Text (str ''Invalid response without JSON''))
       (str ''Whole Foods'') (str ''Grocery'') (Num (- 50))
     = \<lparr>category = JString (str ''Uncategorized''), subcategory = Undefined,
        confidence = Num 0, explanation = JString (str ''Failed to parse AI response'')\<rparr>
   \<and> ruleBasedCategorization (str ''Whole Foods'') (str ''Grocery'') (Num (- 50))
     = \<lparr>category = JString (str ''Groceries''), subcategory = Undefined,
        confidence = Num 0.7, explanation = JString (str ''Keyword match: grocery store'')\<rparr>
   \<and> categorizeTransaction JSON_parse hostNumber claudeCredential (\<lambda>p. Throws)
       (str ''Whole Foods'') (str ''Grocery'') (Num (- 50))
     = ruleBasedCategorization (str ''Whole Foods'') (str ''Grocery'') (Num (- 50))"
proof -
  have k: "truthyStr (ANTHROPIC_API_KEY claudeCredential)"
    by (simp add: claudeCredential_def truthyStr_def str_def)
  have m: "matchJsonObject (str ''Invalid response without JSON'') = None"
    by (simp add: matchJsonObject_def str_def)
  have 1: "categorizeTransaction JSON_parse hostNumber claudeCredential
       (\<lambda>p. Text (str ''Invalid response without JSON''))
       (str ''Whole Foods'') (str ''Grocery'') (Num (- 50)) = parseFailure"
    using k m by (simp add: categorizeTransaction_with_key parseCategorizationResponse_no_object)
  have 2: "ruleBasedCategorization (str ''Whole Foods'') (str ''Grocery'') (Num (- 50))
     = \<lparr>category = JString (str ''Groceries''), subcategory = Undefined,
        confidence = Num 0.7, explanation = JString (str ''Keyword match: grocery store'')\<rparr>"
    by (simp add: ruleBasedCategorization_def textIncludesAny_def toLowerCase_def toLowerCaseUnit_def str_def)
  have 3: "categorizeTransaction JSON_parse hostNumber claudeCredential (\<lambda>p. Throws)
       (str ''Whole Foods'') (str ''Grocery'') (Num (- 50))
     = ruleBasedCategorization (str ''Whole Foods'') (str ''Grocery'') (Num (- 50))"
    using k by (simp add: categorizeTransaction_def Let_def)
  show ?thesis using 1 2 3 by (simp add: parseFailure_def)
qed

text \<open>
  The confidence of a reply whose JSON object was parsed: the clamp applies to non-zero
  numbers; a missing or null confidence gives 0.5, and so does the number 0; a non-empty
  text goes through the host's conversion, which gives \<open>NaN\<close> for a text that is no number.
\<close>

lemma confidence_of_object:
  assumes "matchJsonObject t = Some j" "JSON_parse j = Some (JObject fs)"
  shows "confidence (parseCategorizationResponse JSON_parse hostNumber t)
     = Math_max (Num 0) (Math_min (Num 1) (ToNumber hostNumber
          (orValue (case map_of fs (str ''confidence'') of None \<Rightarrow> Undefined | Some v \<Rightarrow> v)
                   (JNumber (Num 0.5)))))"
  using assms by (simp add: parseCategorizationResponse_def)

lemma confidence_number:
  assumes "matchJsonObject t = Some j" "JSON_parse j = Some (JObject fs)"
    and "map_of fs (str ''confidence'') = Some (JNumber (Num x))"
  shows "confidence (parseCategorizationResponse JSON_parse hostNumber t)
     = (if x = 0 then Num 0.5 else Num (max 0 (min 1 x)))"
  using assms by (simp add: confidence_of_object orValue_def)

lemma confidence_missing:
  assumes "matchJsonObject t = Some j" "JSON_parse j = Some (JObject fs)"
    and "map_of fs (str ''confidence'') = None \<or> map_of fs (str ''confidence'') = Some JNull"
  shows "confidence (parseCategorizationResponse JSON_parse hostNumber t) = Num 0.5"
  using assms by (auto simp add: confidence_of_object orValue_def)

lemma confidence_text:
  assumes "matchJsonObject t = Some j" "JSON_parse j = Some (JObject fs)"
    and "map_of fs (str ''confidence'') = Some (JString s)" "s \<noteq> []"
  shows "confidence (parseCategorizationResponse JSON_parse hostNumber t)
     = Math_max (Num 0) (Math_min (Num 1) (hostNumber (JString s)))"
  using assms by (simp add: confidence_of_object orValue_def)

lemma zeroConfidenceReply_match: "matchJsonObject zeroConfidenceReply = Some zeroConfidenceReply"
  by (simp add: matchJsonObject_def zeroConfidenceReply_def quoted_def str_def)

text \<open>
  C8 does not hold of the code at confidence 0: \<open>result.confidence || 0.5\<close> treats the
  valid value 0 as missing, and the reply's confidence 0 comes back as 0.5.
\<close>

theorem parseCategorizationResponse_zero_confidence:
  "confidence (parseCategorizationResponse sampleJsonParse hostNumber zeroConfidenceReply) = Num 0.5
   \<and> category (parseCategorizationResponse sampleJsonParse hostNumber zeroConfidenceReply)
       = JString (str ''Groceries'')
   \<and> confidence (categorizeTransaction sampleJsonParse hostNumber claudeCredential
         (\<lambda>p. Text zeroConfidenceReply) (str ''Test'') (str ''Test'') (Num (- 10))) = Num 0.5"
proof -
  have k: "truthyStr (ANTHROPIC_API_KEY claudeCredential)"
    by (simp add: claudeCredential_def truthyStr_def str_def)
  have p: "sampleJsonParse zeroConfidenceReply
      = Some (JObject [(str ''category'', JString (str ''Groceries'')),
                          (str ''confidence'', JNumber (Num 0)),
                          (str ''explanation'', JString (str ''Test''))])"
    by (simp add: sampleJsonParse_def)
  have c: "map_of [(str ''category'', JString (str ''Groceries'')),
                          (str ''confidence'', JNumber (Num 0)),
                          (str ''explanation'', JString (str ''Test''))] (str ''confidence'')
       = Some (JNumber (Num 0))" by (simp add: str_def)
  have 1: "confidence (parseCategorizationResponse sampleJsonParse hostNumber zeroConfidenceReply) = Num 0.5"
    using confidence_number[where JSON_parse = sampleJsonParse and x = 0, OF zeroConfidenceReply_match p c]
    by simp
  have 2: "category (parseCategorizationResponse sampleJsonParse hostNumber zeroConfidenceReply)
       = JString (str ''Groceries'')"
    using zeroConfidenceReply_match p by (simp add: parseCategorizationResponse_def str_def)
  have 3: "categorizeTransaction sampleJsonParse hostNumber claudeCredential
         (\<lambda>p. Text zeroConfidenceReply) (str ''Test'') (str ''Test'') (Num (- 10))
      = parseCategorizationResponse sampleJsonParse hostNumber zeroConfidenceReply"
    using k by (simp add: categorizeTransaction_with_key)
  show ?thesis using 1 2 3 by simp
qed

end
